theory Spec2Isabelle
  imports Main "HOL-Library.Word"
begin

section \<open>The native library seen from the wrapper\<close>

text \<open>
  Package \<open>kmod\<close> (file \<open>kmod/kmod.go\<close>) is a cgo binding over libkmod. Everything it
  does is a call into the native library, so the model records every native call in a
  history and takes the library itself as a parameter: each native function answers from
  the history of the calls made before it and from its arguments.

  A C pointer is a nullable address (\<open>None\<close> is \<open>nil\<close>), a \<open>C.int\<close> is a 32-bit word
  read in two's complement, and \<open>-err\<close> is negation of that word. A Go string handed
  to C through \<open>C.CString\<close> (and freed right after the call) is passed as the string.
\<close>

type_synonym cint = "32 word"
type_synonym cuint = "32 word"
type_synonym kmod_ctx_ptr = "nat option"
type_synonym kmod_module_ptr = "nat option"
type_synonym cptr = "nat option"

text \<open>
  A native result list (\<open>struct kmod_list *\<close>) is the finite sequence of the module
  handles its entries hold, in the order in which the native iteration visits them;
  the \<open>nil\<close> list is the empty sequence.
\<close>

type_synonym kmod_list = "kmod_module_ptr list"

datatype call =
    Kmod_new cptr cptr
  | Kmod_load_resources kmod_ctx_ptr
  | Kmod_unload_resources kmod_ctx_ptr
  | Kmod_unref kmod_ctx_ptr
  | Kmod_module_new_from_loaded kmod_ctx_ptr
  | Kmod_module_new_from_lookup kmod_ctx_ptr string
  | Kmod_module_new_from_name kmod_ctx_ptr string
  | Kmod_module_probe_insert_module kmod_module_ptr cuint cptr cptr cptr cptr
  | Kmod_module_remove_module kmod_module_ptr cuint
  | Kmod_module_get_name kmod_module_ptr
  | Kmod_module_get_module kmod_module_ptr
  | Kmod_module_unref_list kmod_list

type_synonym history = "call list"

record libkmod =
  kmod_new :: "history \<Rightarrow> cptr \<Rightarrow> cptr \<Rightarrow> kmod_ctx_ptr"
  kmod_load_resources :: "history \<Rightarrow> kmod_ctx_ptr \<Rightarrow> cint"
  kmod_module_new_from_loaded :: "history \<Rightarrow> kmod_ctx_ptr \<Rightarrow> cint \<times> kmod_list"
  kmod_module_new_from_lookup :: "history \<Rightarrow> kmod_ctx_ptr \<Rightarrow> string \<Rightarrow> cint \<times> kmod_list"
  kmod_module_new_from_name :: "history \<Rightarrow> kmod_ctx_ptr \<Rightarrow> string \<Rightarrow> cint \<times> kmod_module_ptr"
  kmod_module_probe_insert_module ::
    "history \<Rightarrow> kmod_module_ptr \<Rightarrow> cuint \<Rightarrow> cptr \<Rightarrow> cptr \<Rightarrow> cptr \<Rightarrow> cptr \<Rightarrow> cint"
  kmod_module_remove_module :: "history \<Rightarrow> kmod_module_ptr \<Rightarrow> cuint \<Rightarrow> cint"
  kmod_module_get_name :: "history \<Rightarrow> kmod_module_ptr \<Rightarrow> string"
  strerror :: "cint \<Rightarrow> string"

section \<open>The wrapper's data\<close>

text \<open>
  \<open>type Kmod struct { ctx *C.struct_kmod_ctx }\<close>. A Go error made by \<open>fmt.Errorf\<close>
  is its message.
\<close>

record Kmod =
  ctx :: kmod_ctx_ptr

datatype error = Errorf string

text \<open>
  Modelled from the spec: the file declaring \<open>Module\<close>, \<open>newModule\<close>,
  \<open>Module.Name\<close>, \<open>moduleList\<close> and \<open>newModuleList\<close> is not among the sources;
  \<open>kmod.go\<close> only uses them (\<open>module.mod\<close>, \<open>module.Name()\<close>,
  \<open>newModule(module)\<close>, \<open>newModuleList(list)\<close>, \<open>modList.modules\<close>). The spec
  describes a module as a reference to a native module object, \<open>Name\<close> as the name
  known to the native library, and the list adapter (section 4.3) as: traverse the
  native list, for each entry obtain the contained module reference (taking a
  reference), accumulate in native iteration order, then release the list
  scaffolding.
\<close>

record Module =
  mod' :: kmod_module_ptr

record moduleList =
  modules :: "Module list"

definition newModule :: "kmod_module_ptr \<Rightarrow> Module" where
  "newModule m = \<lparr>mod' = m\<rparr>"

definition Name :: "libkmod \<Rightarrow> Module \<Rightarrow> history \<Rightarrow> string \<times> history" where
  "Name L m h = (kmod_module_get_name L h (mod' m), h @ [Kmod_module_get_name (mod' m)])"

fun traverse :: "kmod_list \<Rightarrow> history \<Rightarrow> Module list \<times> history" where
  "traverse [] h = ([], h)"
| "traverse (e # es) h =
     (let m = newModule e;
          (ms, h') = traverse es (h @ [Kmod_module_get_module e])
      in (m # ms, h'))"

definition newModuleList :: "kmod_list \<Rightarrow> history \<Rightarrow> moduleList \<times> history" where
  "newModuleList l h =
     (let (ms, h') = traverse l h
      in (\<lparr>modules = ms\<rparr>, h' @ [Kmod_module_unref_list l]))"

section \<open>The operations of kmod.go\<close>

definition goStrerror :: "libkmod \<Rightarrow> cint \<Rightarrow> string" where
  "goStrerror L err = strerror L err"

text \<open>
  \<open>NewKmod\<close>: the finalizer registered on the returned value runs \<open>cleanup\<close> at some
  later collection and does nothing at the call.
\<close>

definition NewKmod :: "libkmod \<Rightarrow> history \<Rightarrow> (error + Kmod) \<times> history" where
  "NewKmod L h =
     (let c = kmod_new L h None None;
          h1 = h @ [Kmod_new None None]
      in if c = None
         then (Inl (Errorf ''Kmod: unable to create the kmod_ctx, leaving now''), h1)
         else
           (let err = kmod_load_resources L h1 c;
                h2 = h1 @ [Kmod_load_resources c]
            in if sint err < 0
               then (Inl (Errorf (''Kmod: unable to prepare the kmod_ctx, leaving now - ''
                                   @ goStrerror L (- err))), h2)
               else (Inr \<lparr>ctx = c\<rparr>, h2)))"

definition cleanup :: "Kmod \<times> history \<Rightarrow> Kmod \<times> history" where
  "cleanup s =
     (case s of (kmod, h) \<Rightarrow>
        if ctx kmod \<noteq> None
        then (kmod\<lparr>ctx := None\<rparr>,
              h @ [Kmod_unload_resources (ctx kmod), Kmod_unref (ctx kmod)])
        else (kmod, h))"

definition List :: "libkmod \<Rightarrow> Kmod \<Rightarrow> history \<Rightarrow> (error + Module list) \<times> history" where
  "List L kmod h =
     (let (err, l) = kmod_module_new_from_loaded L h (ctx kmod);
          h1 = h @ [Kmod_module_new_from_loaded (ctx kmod)]
      in if sint err < 0
         then (Inl (Errorf (''Kmod: couldn't get the list of modules: ''
                             @ goStrerror L (- err) @ [CHR 0x0A])), h1)
         else
           (let (modList, h2) = newModuleList l h1
            in (Inr (modules modList), h2)))"

definition Lookup ::
  "libkmod \<Rightarrow> Kmod \<Rightarrow> string \<Rightarrow> history \<Rightarrow> (error + Module list) \<times> history" where
  "Lookup L kmod aliasName h =
     (let (err, l) = kmod_module_new_from_lookup L h (ctx kmod) aliasName;
          h1 = h @ [Kmod_module_new_from_lookup (ctx kmod) aliasName]
      in if sint err < 0
         then (Inl (Errorf (''Kmod : Failed to lookup '' @ aliasName @ '' - ''
                             @ goStrerror L (- err))), h1)
         else
           (let (modList, h2) = newModuleList l h1
            in (Inr (modules modList), h2)))"

definition ModuleFromName ::
  "libkmod \<Rightarrow> Kmod \<Rightarrow> string \<Rightarrow> history \<Rightarrow> (error + Module) \<times> history" where
  "ModuleFromName L kmod name h =
     (let (err, module) = kmod_module_new_from_name L h (ctx kmod) name;
          h1 = h @ [Kmod_module_new_from_name (ctx kmod) name]
      in if sint err < 0
         then (Inl (Errorf (''Kmod : Could not get module '' @ name @ '' - ''
                             @ goStrerror L (- err))), h1)
         else (Inr (newModule module), h1))"

text \<open>The \<open>for _, module := range modules\<close> loops of \<open>Insert\<close> and \<open>Remove\<close>.\<close>

fun Insert_range :: "libkmod \<Rightarrow> Module list \<Rightarrow> history \<Rightarrow> error option \<times> history" where
  "Insert_range L [] h = (None, h)"
| "Insert_range L (module # rest) h =
     (let errCode = kmod_module_probe_insert_module L h (mod' module) 0 None None None None;
          h1 = h @ [Kmod_module_probe_insert_module (mod' module) 0 None None None None]
      in if sint errCode < 0
         then
           (let (n, h2) = Name L module h1
            in (Some (Errorf (''Could not insert module '' @ n @ '' : ''
                               @ goStrerror L (- errCode))), h2))
         else Insert_range L rest h1)"

definition Insert :: "libkmod \<Rightarrow> Kmod \<Rightarrow> string \<Rightarrow> history \<Rightarrow> error option \<times> history" where
  "Insert L kmod name h =
     (case Lookup L kmod name h of
        (Inl err, h1) \<Rightarrow> (Some err, h1)
      | (Inr ms, h1) \<Rightarrow> Insert_range L ms h1)"

fun Remove_range :: "libkmod \<Rightarrow> Module list \<Rightarrow> history \<Rightarrow> error option \<times> history" where
  "Remove_range L [] h = (None, h)"
| "Remove_range L (module # rest) h =
     (let errCode = kmod_module_remove_module L h (mod' module) 0;
          h1 = h @ [Kmod_module_remove_module (mod' module) 0]
      in if sint errCode < 0
         then
           (let (n, h2) = Name L module h1
            in (Some (Errorf (''Could not remove module '' @ n @ '' : ''
                               @ goStrerror L (- errCode))), h2))
         else Remove_range L rest h1)"

definition Remove :: "libkmod \<Rightarrow> Kmod \<Rightarrow> string \<Rightarrow> history \<Rightarrow> error option \<times> history" where
  "Remove L kmod name h =
     (case Lookup L kmod name h of
        (Inl err, h1) \<Rightarrow> (Some err, h1)
      | (Inr ms, h1) \<Rightarrow> Remove_range L ms h1)"

section \<open>Vocabulary of the statements\<close>

text \<open>
  The native call that the loop of \<open>Insert\<close> issues for a module, and the status
  the library answers when the loop reaches the \<open>i\<close>-th module of \<open>ms\<close> from history
  \<open>h\<close>, that is after the calls for the modules before it. Likewise for \<open>Remove\<close>.
\<close>

definition probe_call :: "Module \<Rightarrow> call" where
  "probe_call m = Kmod_module_probe_insert_module (mod' m) 0 None None None None"

definition probe_status :: "libkmod \<Rightarrow> history \<Rightarrow> Module list \<Rightarrow> nat \<Rightarrow> cint" where
  "probe_status L h ms i =
     kmod_module_probe_insert_module L (h @ map probe_call (take i ms)) (mod' (ms ! i))
       0 None None None None"

definition remove_call :: "Module \<Rightarrow> call" where
  "remove_call m = Kmod_module_remove_module (mod' m) 0"

definition remove_status :: "libkmod \<Rightarrow> history \<Rightarrow> Module list \<Rightarrow> nat \<Rightarrow> cint" where
  "remove_status L h ms i =
     kmod_module_remove_module L (h @ map remove_call (take i ms)) (mod' (ms ! i)) 0"

text \<open>
  A small native library to run the operations on: session creation answers \<open>c\<close>,
  resource loading answers \<open>st\<close>, three aliases are known, and the module at address
  12 can be neither inserted (ENODEV) nor removed (EBUSY).
\<close>

definition stub_libkmod :: "kmod_ctx_ptr \<Rightarrow> cint \<Rightarrow> libkmod" where
  "stub_libkmod c st =
     \<lparr>kmod_new = (\<lambda>h dirname config_paths. c),
      kmod_load_resources = (\<lambda>h x. st),
      kmod_module_new_from_loaded =
        (\<lambda>h x. if x = Some 1 then (0, [Some 10, Some 11]) else (- 9, [])),
      kmod_module_new_from_lookup =
        (\<lambda>h x a. if a = ''snd'' then (0, [Some 11, Some 12, Some 13])
                 else if a = ''pcspkr'' then (0, [Some 10])
                 else if a = ''absent'' then (0, [])
                 else (- 2, [])),
      kmod_module_new_from_name =
        (\<lambda>h x n. if n = ''pcspkr'' then (0, Some 10) else (- 2, None)),
      kmod_module_probe_insert_module =
        (\<lambda>h m flags extra_options run_install data print_action.
           if m = Some 12 then - 19 else 0),
      kmod_module_remove_module = (\<lambda>h m flags. if m = Some 12 then - 16 else 0),
      kmod_module_get_name =
        (\<lambda>h m. if m = Some 10 then ''pcspkr'' else if m = Some 11 then ''snd''
               else if m = Some 12 then ''snd_pcm'' else ''snd_timer''),
      strerror =
        (\<lambda>e. if e = 2 then ''No such file or directory''
             else if e = 9 then ''Bad file descriptor''
             else if e = 12 then ''Cannot allocate memory''
             else if e = 16 then ''Device or resource busy''
             else if e = 19 then ''No such device''
             else ''Unknown error'')\<rparr>"


section \<open>The list adapter and the two loops\<close>

lemma traverse_eq: "traverse l h = (map newModule l, h @ map Kmod_module_get_module l)"
  by (induction l arbitrary: h) simp_all

lemma newModuleList_eq:
  "newModuleList l h =
     (\<lparr>modules = map newModule l\<rparr>,
      h @ map Kmod_module_get_module l @ [Kmod_module_unref_list l])"
  by (simp add: newModuleList_def traverse_eq)

lemma probe_status_0:
  "probe_status L h (m # ms) 0 =
     kmod_module_probe_insert_module L h (mod' m) 0 None None None None"
  by (simp add: probe_status_def)

lemma probe_status_Suc:
  "probe_status L h (m # ms) (Suc i) = probe_status L (h @ [probe_call m]) ms i"
  by (simp add: probe_status_def)

lemma Insert_range_ok:
  "(\<forall>i<length ms. 0 \<le> sint (probe_status L h ms i)) \<Longrightarrow>
   Insert_range L ms h = (None, h @ map probe_call ms)"
proof (induction ms arbitrary: h)
  case Nil
  then show ?case by simp
next
  case (Cons m ms)
  from Cons.prems have "0 \<le> sint (probe_status L h (m # ms) 0)" by blast
  then have head:
    "\<not> sint (kmod_module_probe_insert_module L h (mod' m) 0 None None None None) < 0"
    by (simp add: probe_status_0)
  have "\<forall>i<length ms. 0 \<le> sint (probe_status L (h @ [probe_call m]) ms i)"
    using Cons.prems by (auto simp flip: probe_status_Suc)
  then have "Insert_range L ms (h @ [probe_call m]) =
      (None, (h @ [probe_call m]) @ map probe_call ms)"
    by (rule Cons.IH)
  with head show ?case by (simp add: probe_call_def)
qed

lemma Insert_range_fail:
  "i < length ms \<Longrightarrow> (\<forall>j<i. 0 \<le> sint (probe_status L h ms j)) \<Longrightarrow>
   sint (probe_status L h ms i) < 0 \<Longrightarrow>
   Insert_range L ms h =
     (Some (Errorf (''Could not insert module ''
                    @ kmod_module_get_name L (h @ map probe_call (take (Suc i) ms)) (mod' (ms ! i))
                    @ '' : '' @ strerror L (- probe_status L h ms i))),
      h @ map probe_call (take (Suc i) ms) @ [Kmod_module_get_name (mod' (ms ! i))])"
proof (induction ms arbitrary: h i)
  case Nil
  then show ?case by simp
next
  case (Cons m ms)
  show ?case
  proof (cases i)
    case 0
    with Cons.prems show ?thesis
      by (simp add: probe_status_0 Name_def goStrerror_def probe_call_def)
  next
    case (Suc k)
    from Cons.prems Suc have "0 \<le> sint (probe_status L h (m # ms) 0)" by blast
    then have head:
      "\<not> sint (kmod_module_probe_insert_module L h (mod' m) 0 None None None None) < 0"
      by (simp add: probe_status_0)
    have k: "k < length ms" using Cons.prems Suc by simp
    have before: "\<forall>j<k. 0 \<le> sint (probe_status L (h @ [probe_call m]) ms j)"
      using Cons.prems(2) Suc by (auto simp flip: probe_status_Suc)
    have at: "sint (probe_status L (h @ [probe_call m]) ms k) < 0"
      using Cons.prems(3) Suc by (simp add: probe_status_Suc)
    note Cons.IH [OF k before at]
    with head Suc show ?thesis
      by (simp add: probe_status_Suc) (simp add: probe_call_def)
  qed
qed

lemma remove_status_0:
  "remove_status L h (m # ms) 0 = kmod_module_remove_module L h (mod' m) 0"
  by (simp add: remove_status_def)

lemma remove_status_Suc:
  "remove_status L h (m # ms) (Suc i) = remove_status L (h @ [remove_call m]) ms i"
  by (simp add: remove_status_def)

lemma Remove_range_ok:
  "(\<forall>i<length ms. 0 \<le> sint (remove_status L h ms i)) \<Longrightarrow>
   Remove_range L ms h = (None, h @ map remove_call ms)"
proof (induction ms arbitrary: h)
  case Nil
  then show ?case by simp
next
  case (Cons m ms)
  from Cons.prems have "0 \<le> sint (remove_status L h (m # ms) 0)" by blast
  then have head: "\<not> sint (kmod_module_remove_module L h (mod' m) 0) < 0"
    by (simp add: remove_status_0)
  have "\<forall>i<length ms. 0 \<le> sint (remove_status L (h @ [remove_call m]) ms i)"
    using Cons.prems by (auto simp flip: remove_status_Suc)
  then have "Remove_range L ms (h @ [remove_call m]) =
      (None, (h @ [remove_call m]) @ map remove_call ms)"
    by (rule Cons.IH)
  with head show ?case by (simp add: remove_call_def)
qed

lemma Remove_range_fail:
  "i < length ms \<Longrightarrow> (\<forall>j<i. 0 \<le> sint (remove_status L h ms j)) \<Longrightarrow>
   sint (remove_status L h ms i) < 0 \<Longrightarrow>
   Remove_range L ms h =
     (Some (Errorf (''Could not remove module ''
                    @ kmod_module_get_name L (h @ map remove_call (take (Suc i) ms)) (mod' (ms ! i))
                    @ '' : '' @ strerror L (- remove_status L h ms i))),
      h @ map remove_call (take (Suc i) ms) @ [Kmod_module_get_name (mod' (ms ! i))])"
proof (induction ms arbitrary: h i)
  case Nil
  then show ?case by simp
next
  case (Cons m ms)
  show ?case
  proof (cases i)
    case 0
    with Cons.prems show ?thesis
      by (simp add: remove_status_0 Name_def goStrerror_def remove_call_def)
  next
    case (Suc k)
    from Cons.prems Suc have "0 \<le> sint (remove_status L h (m # ms) 0)" by blast
    then have head: "\<not> sint (kmod_module_remove_module L h (mod' m) 0) < 0"
      by (simp add: remove_status_0)
    have k: "k < length ms" using Cons.prems Suc by simp
    have before: "\<forall>j<k. 0 \<le> sint (remove_status L (h @ [remove_call m]) ms j)"
      using Cons.prems(2) Suc by (auto simp flip: remove_status_Suc)
    have at: "sint (remove_status L (h @ [remove_call m]) ms k) < 0"
      using Cons.prems(3) Suc by (simp add: remove_status_Suc)
    note Cons.IH [OF k before at]
    with head Suc show ?thesis
      by (simp add: remove_status_Suc) (simp add: remove_call_def)
  qed
qed

text \<open>What \<open>Lookup\<close> answers on the small library.\<close>

lemma stub_Lookup_snd:
  "Lookup (stub_libkmod (Some 1) 0) \<lparr>ctx = Some 1\<rparr> ''snd'' [] =
     (Inr [\<lparr>mod' = Some 11\<rparr>, \<lparr>mod' = Some 12\<rparr>, \<lparr>mod' = Some 13\<rparr>],
      [Kmod_module_new_from_lookup (Some 1) ''snd'',
       Kmod_module_get_module (Some 11), Kmod_module_get_module (Some 12),
       Kmod_module_get_module (Some 13),
       Kmod_module_unref_list [Some 11, Some 12, Some 13]])"
  by (simp add: Lookup_def stub_libkmod_def newModuleList_eq newModule_def)

lemma stub_Lookup_pcspkr:
  "Lookup (stub_libkmod (Some 1) 0) \<lparr>ctx = Some 1\<rparr> ''pcspkr'' [] =
     (Inr [\<lparr>mod' = Some 10\<rparr>],
      [Kmod_module_new_from_lookup (Some 1) ''pcspkr'',
       Kmod_module_get_module (Some 10),
       Kmod_module_unref_list [Some 10]])"
  by (simp add: Lookup_def stub_libkmod_def newModuleList_eq newModule_def)

lemma stub_Lookup_absent:
  "Lookup (stub_libkmod (Some 1) 0) \<lparr>ctx = Some 1\<rparr> ''absent'' [] =
     (Inr [], [Kmod_module_new_from_lookup (Some 1) ''absent'', Kmod_module_unref_list []])"
  by (simp add: Lookup_def stub_libkmod_def newModuleList_eq)

lemma stub_Lookup_bogus:
  "Lookup (stub_libkmod (Some 1) 0) \<lparr>ctx = Some 1\<rparr> ''bogus'' [] =
     (Inl (Errorf ''Kmod : Failed to lookup bogus - No such file or directory''),
      [Kmod_module_new_from_lookup (Some 1) ''bogus''])"
  by (simp add: Lookup_def stub_libkmod_def goStrerror_def)

section \<open>Insert and Remove\<close>

text \<open>
  Claim C1. \<open>Insert(name)\<close> first resolves \<open>name\<close> with \<open>Lookup\<close>; a lookup error is
  returned as it is. Otherwise it walks the modules in sequence order and issues for
  each a single native probe-and-insert call with flags 0 and \<open>nil\<close> for each of the
  four optional arguments (extra options, install runner, user data, print action).
  When every status is non-negative it returns no error, having issued exactly one call
  per module. At the first module whose status is
  negative it stops: the error names that module (the name is read from the native
  library) and carries the rendered string of the negated status, the modules after it
  are not touched, and the history holds no call undoing the earlier ones.
\<close>

theorem Insert_fail_fast:
  "(Lookup L kmod name h = (Inl e, h1) \<longrightarrow> Insert L kmod name h = (Some e, h1)) \<and>
   (Lookup L kmod name h = (Inr ms, h1) \<and>
    (\<forall>i<length ms. 0 \<le> sint (probe_status L h1 ms i)) \<longrightarrow>
      Insert L kmod name h = (None, h1 @ map probe_call ms)) \<and>
   (Lookup L kmod name h = (Inr ms, h1) \<and> i < length ms \<and>
    (\<forall>j<i. 0 \<le> sint (probe_status L h1 ms j)) \<and> sint (probe_status L h1 ms i) < 0 \<longrightarrow>
      Insert L kmod name h =
        (Some (Errorf (''Could not insert module ''
                       @ kmod_module_get_name L (h1 @ map probe_call (take (Suc i) ms))
                           (mod' (ms ! i))
                       @ '' : '' @ strerror L (- probe_status L h1 ms i))),
         h1 @ map probe_call (take (Suc i) ms) @ [Kmod_module_get_name (mod' (ms ! i))]))"
proof (intro conjI impI)
  assume "Lookup L kmod name h = (Inl e, h1)"
  then show "Insert L kmod name h = (Some e, h1)" by (simp add: Insert_def)
next
  assume "Lookup L kmod name h = (Inr ms, h1) \<and>
    (\<forall>i<length ms. 0 \<le> sint (probe_status L h1 ms i))"
  then show "Insert L kmod name h = (None, h1 @ map probe_call ms)"
    by (simp add: Insert_def Insert_range_ok)
next
  assume a: "Lookup L kmod name h = (Inr ms, h1) \<and> i < length ms \<and>
    (\<forall>j<i. 0 \<le> sint (probe_status L h1 ms j)) \<and> sint (probe_status L h1 ms i) < 0"
  then have "Insert L kmod name h = Insert_range L ms h1" by (simp add: Insert_def)
  also have "\<dots> = (Some (Errorf (''Could not insert module ''
                       @ kmod_module_get_name L (h1 @ map probe_call (take (Suc i) ms))
                           (mod' (ms ! i))
                       @ '' : '' @ strerror L (- probe_status L h1 ms i))),
         h1 @ map probe_call (take (Suc i) ms) @ [Kmod_module_get_name (mod' (ms ! i))])"
    using a by (intro Insert_range_fail) auto
  finally show "Insert L kmod name h =
        (Some (Errorf (''Could not insert module ''
                       @ kmod_module_get_name L (h1 @ map probe_call (take (Suc i) ms))
                           (mod' (ms ! i))
                       @ '' : '' @ strerror L (- probe_status L h1 ms i))),
         h1 @ map probe_call (take (Suc i) ms) @ [Kmod_module_get_name (mod' (ms ! i))])" .
qed

theorem Insert_fail_fast_witness:
  "Insert (stub_libkmod (Some 1) 0) \<lparr>ctx = Some 1\<rparr> ''bogus'' [] =
     (Some (Errorf ''Kmod : Failed to lookup bogus - No such file or directory''),
      [Kmod_module_new_from_lookup (Some 1) ''bogus'']) \<and>
   Insert (stub_libkmod (Some 1) 0) \<lparr>ctx = Some 1\<rparr> ''pcspkr'' [] =
     (None,
      [Kmod_module_new_from_lookup (Some 1) ''pcspkr'',
       Kmod_module_get_module (Some 10),
       Kmod_module_unref_list [Some 10],
       Kmod_module_probe_insert_module (Some 10) 0 None None None None]) \<and>
   Insert (stub_libkmod (Some 1) 0) \<lparr>ctx = Some 1\<rparr> ''snd'' [] =
     (Some (Errorf ''Could not insert module snd_pcm : No such device''),
      [Kmod_module_new_from_lookup (Some 1) ''snd'',
       Kmod_module_get_module (Some 11), Kmod_module_get_module (Some 12),
       Kmod_module_get_module (Some 13),
       Kmod_module_unref_list [Some 11, Some 12, Some 13],
       Kmod_module_probe_insert_module (Some 11) 0 None None None None,
       Kmod_module_probe_insert_module (Some 12) 0 None None None None,
       Kmod_module_get_name (Some 12)])"
proof -
  let ?L = "stub_libkmod (Some 1) 0"
  have a: "Insert ?L \<lparr>ctx = Some 1\<rparr> ''bogus'' [] =
     (Some (Errorf ''Kmod : Failed to lookup bogus - No such file or directory''),
      [Kmod_module_new_from_lookup (Some 1) ''bogus''])"
    by (rule Insert_fail_fast [THEN conjunct1, rule_format, OF stub_Lookup_bogus])
  have "\<forall>i<length [\<lparr>mod' = Some 10\<rparr>]. 0 \<le> sint (probe_status ?L
          [Kmod_module_new_from_lookup (Some 1) ''pcspkr'',
           Kmod_module_get_module (Some 10), Kmod_module_unref_list [Some 10]]
          [\<lparr>mod' = Some 10\<rparr>] i)"
    by (simp add: probe_status_def stub_libkmod_def)
  with stub_Lookup_pcspkr
  have b: "Insert ?L \<lparr>ctx = Some 1\<rparr> ''pcspkr'' [] =
     (None, [Kmod_module_new_from_lookup (Some 1) ''pcspkr'',
           Kmod_module_get_module (Some 10), Kmod_module_unref_list [Some 10]]
           @ map probe_call [\<lparr>mod' = Some 10\<rparr>])"
    by (intro Insert_fail_fast [THEN conjunct2, THEN conjunct1, rule_format] conjI)
  let ?ms = "[\<lparr>mod' = Some 11\<rparr>, \<lparr>mod' = Some 12\<rparr>, \<lparr>mod' = Some 13\<rparr>]"
  let ?h1 = "[Kmod_module_new_from_lookup (Some 1) ''snd'',
              Kmod_module_get_module (Some 11), Kmod_module_get_module (Some 12),
              Kmod_module_get_module (Some 13),
              Kmod_module_unref_list [Some 11, Some 12, Some 13]]"
  have "Suc 0 < length ?ms" by simp
  moreover have "\<forall>j<Suc 0. 0 \<le> sint (probe_status ?L ?h1 ?ms j)"
    by (simp add: probe_status_def stub_libkmod_def)
  moreover have "sint (probe_status ?L ?h1 ?ms (Suc 0)) < 0"
    by (simp add: probe_status_def stub_libkmod_def)
  ultimately have c: "Insert ?L \<lparr>ctx = Some 1\<rparr> ''snd'' [] =
        (Some (Errorf (''Could not insert module ''
                       @ kmod_module_get_name ?L (?h1 @ map probe_call (take (Suc (Suc 0)) ?ms))
                           (mod' (?ms ! Suc 0))
                       @ '' : '' @ strerror ?L (- probe_status ?L ?h1 ?ms (Suc 0)))),
         ?h1 @ map probe_call (take (Suc (Suc 0)) ?ms)
             @ [Kmod_module_get_name (mod' (?ms ! Suc 0))])"
    using stub_Lookup_snd
    by (intro Insert_fail_fast [THEN conjunct2, THEN conjunct2, rule_format] conjI)
  show ?thesis
    unfolding a b c by (simp add: probe_status_def probe_call_def stub_libkmod_def)
qed

text \<open>
  Claim C6. \<open>Remove(name)\<close> first resolves \<open>name\<close> with \<open>Lookup\<close>; a lookup error is
  returned as it is. Otherwise it walks the modules in sequence order and issues for
  each a single native remove call with flags 0. When every status is non-negative it returns no error,
  having issued exactly one call per module. At the first module whose status is
  negative it stops: the error names that module (the name is read from the native
  library) and carries the rendered string of the negated status, the modules after it
  are not touched, and the history holds no call undoing the earlier ones.
\<close>

theorem Remove_fail_fast:
  "(Lookup L kmod name h = (Inl e, h1) \<longrightarrow> Remove L kmod name h = (Some e, h1)) \<and>
   (Lookup L kmod name h = (Inr ms, h1) \<and>
    (\<forall>i<length ms. 0 \<le> sint (remove_status L h1 ms i)) \<longrightarrow>
      Remove L kmod name h = (None, h1 @ map remove_call ms)) \<and>
   (Lookup L kmod name h = (Inr ms, h1) \<and> i < length ms \<and>
    (\<forall>j<i. 0 \<le> sint (remove_status L h1 ms j)) \<and> sint (remove_status L h1 ms i) < 0 \<longrightarrow>
      Remove L kmod name h =
        (Some (Errorf (''Could not remove module ''
                       @ kmod_module_get_name L (h1 @ map remove_call (take (Suc i) ms))
                           (mod' (ms ! i))
                       @ '' : '' @ strerror L (- remove_status L h1 ms i))),
         h1 @ map remove_call (take (Suc i) ms) @ [Kmod_module_get_name (mod' (ms ! i))]))"
proof (intro conjI impI)
  assume "Lookup L kmod name h = (Inl e, h1)"
  then show "Remove L kmod name h = (Some e, h1)" by (simp add: Remove_def)
next
  assume "Lookup L kmod name h = (Inr ms, h1) \<and>
    (\<forall>i<length ms. 0 \<le> sint (remove_status L h1 ms i))"
  then show "Remove L kmod name h = (None, h1 @ map remove_call ms)"
    by (simp add: Remove_def Remove_range_ok)
next
  assume a: "Lookup L kmod name h = (Inr ms, h1) \<and> i < length ms \<and>
    (\<forall>j<i. 0 \<le> sint (remove_status L h1 ms j)) \<and> sint (remove_status L h1 ms i) < 0"
  then have "Remove L kmod name h = Remove_range L ms h1" by (simp add: Remove_def)
  also have "\<dots> = (Some (Errorf (''Could not remove module ''
                       @ kmod_module_get_name L (h1 @ map remove_call (take (Suc i) ms))
                           (mod' (ms ! i))
                       @ '' : '' @ strerror L (- remove_status L h1 ms i))),
         h1 @ map remove_call (take (Suc i) ms) @ [Kmod_module_get_name (mod' (ms ! i))])"
    using a by (intro Remove_range_fail) auto
  finally show "Remove L kmod name h =
        (Some (Errorf (''Could not remove module ''
                       @ kmod_module_get_name L (h1 @ map remove_call (take (Suc i) ms))
                           (mod' (ms ! i))
                       @ '' : '' @ strerror L (- remove_status L h1 ms i))),
         h1 @ map remove_call (take (Suc i) ms) @ [Kmod_module_get_name (mod' (ms ! i))])" .
qed

theorem Remove_fail_fast_witness:
  "Remove (stub_libkmod (Some 1) 0) \<lparr>ctx = Some 1\<rparr> ''bogus'' [] =
     (Some (Errorf ''Kmod : Failed to lookup bogus - No such file or directory''),
      [Kmod_module_new_from_lookup (Some 1) ''bogus'']) \<and>
   Remove (stub_libkmod (Some 1) 0) \<lparr>ctx = Some 1\<rparr> ''pcspkr'' [] =
     (None,
      [Kmod_module_new_from_lookup (Some 1) ''pcspkr'',
       Kmod_module_get_module (Some 10),
       Kmod_module_unref_list [Some 10],
       Kmod_module_remove_module (Some 10) 0]) \<and>
   Remove (stub_libkmod (Some 1) 0) \<lparr>ctx = Some 1\<rparr> ''snd'' [] =
     (Some (Errorf ''Could not remove module snd_pcm : Device or resource busy''),
      [Kmod_module_new_from_lookup (Some 1) ''snd'',
       Kmod_module_get_module (Some 11), Kmod_module_get_module (Some 12),
       Kmod_module_get_module (Some 13),
       Kmod_module_unref_list [Some 11, Some 12, Some 13],
       Kmod_module_remove_module (Some 11) 0,
       Kmod_module_remove_module (Some 12) 0,
       Kmod_module_get_name (Some 12)])"
proof -
  let ?L = "stub_libkmod (Some 1) 0"
  have a: "Remove ?L \<lparr>ctx = Some 1\<rparr> ''bogus'' [] =
     (Some (Errorf ''Kmod : Failed to lookup bogus - No such file or directory''),
      [Kmod_module_new_from_lookup (Some 1) ''bogus''])"
    by (rule Remove_fail_fast [THEN conjunct1, rule_format, OF stub_Lookup_bogus])
  have "\<forall>i<length [\<lparr>mod' = Some 10\<rparr>]. 0 \<le> sint (remove_status ?L
          [Kmod_module_new_from_lookup (Some 1) ''pcspkr'',
           Kmod_module_get_module (Some 10), Kmod_module_unref_list [Some 10]]
          [\<lparr>mod' = Some 10\<rparr>] i)"
    by (simp add: remove_status_def stub_libkmod_def)
  with stub_Lookup_pcspkr
  have b: "Remove ?L \<lparr>ctx = Some 1\<rparr> ''pcspkr'' [] =
     (None, [Kmod_module_new_from_lookup (Some 1) ''pcspkr'',
           Kmod_module_get_module (Some 10), Kmod_module_unref_list [Some 10]]
           @ map remove_call [\<lparr>mod' = Some 10\<rparr>])"
    by (intro Remove_fail_fast [THEN conjunct2, THEN conjunct1, rule_format] conjI)
  let ?ms = "[\<lparr>mod' = Some 11\<rparr>, \<lparr>mod' = Some 12\<rparr>, \<lparr>mod' = Some 13\<rparr>]"
  let ?h1 = "[Kmod_module_new_from_lookup (Some 1) ''snd'',
              Kmod_module_get_module (Some 11), Kmod_module_get_module (Some 12),
              Kmod_module_get_module (Some 13),
              Kmod_module_unref_list [Some 11, Some 12, Some 13]]"
  have "Suc 0 < length ?ms" by simp
  moreover have "\<forall>j<Suc 0. 0 \<le> sint (remove_status ?L ?h1 ?ms j)"
    by (simp add: remove_status_def stub_libkmod_def)
  moreover have "sint (remove_status ?L ?h1 ?ms (Suc 0)) < 0"
    by (simp add: remove_status_def stub_libkmod_def)
  ultimately have c: "Remove ?L \<lparr>ctx = Some 1\<rparr> ''snd'' [] =
        (Some (Errorf (''Could not remove module ''
                       @ kmod_module_get_name ?L (?h1 @ map remove_call (take (Suc (Suc 0)) ?ms))
                           (mod' (?ms ! Suc 0))
                       @ '' : '' @ strerror ?L (- remove_status ?L ?h1 ?ms (Suc 0)))),
         ?h1 @ map remove_call (take (Suc (Suc 0)) ?ms)
             @ [Kmod_module_get_name (mod' (?ms ! Suc 0))])"
    using stub_Lookup_snd
    by (intro Remove_fail_fast [THEN conjunct2, THEN conjunct2, rule_format] conjI)
  show ?thesis
    unfolding a b c by (simp add: remove_status_def remove_call_def stub_libkmod_def)
qed

text \<open>
  Claim C10. When \<open>Lookup(name)\<close> succeeds with the empty sequence, \<open>Insert(name)\<close> and
  \<open>Remove(name)\<close> both return no error, and the history is the one \<open>Lookup\<close> left: no
  probe-insert and no remove call is issued.
\<close>

theorem Insert_Remove_empty_lookup:
  "Lookup L kmod name h = (Inr [], h1) \<Longrightarrow>
   Insert L kmod name h = (None, h1) \<and> Remove L kmod name h = (None, h1)"
  by (simp add: Insert_def Remove_def)

theorem Insert_Remove_empty_lookup_witness:
  "Insert (stub_libkmod (Some 1) 0) \<lparr>ctx = Some 1\<rparr> ''absent'' [] =
     (None, [Kmod_module_new_from_lookup (Some 1) ''absent'', Kmod_module_unref_list []]) \<and>
   Remove (stub_libkmod (Some 1) 0) \<lparr>ctx = Some 1\<rparr> ''absent'' [] =
     (None, [Kmod_module_new_from_lookup (Some 1) ''absent'', Kmod_module_unref_list []])"
  by (rule Insert_Remove_empty_lookup [OF stub_Lookup_absent])

section \<open>The context: creation and release\<close>

lemma cleanup_nil: "ctx kmod = None \<Longrightarrow> cleanup (kmod, h) = (kmod, h)"
  by (simp add: cleanup_def)

lemma cleanup_funpow_nil: "ctx kmod = None \<Longrightarrow> (cleanup ^^ n) (kmod, h) = (kmod, h)"
  by (induction n) (simp_all add: cleanup_nil)

text \<open>
  Claim C2. On a context that holds a native session, the first \<open>cleanup\<close> issues
  unload-resources and then release-session, each exactly once, and sets \<open>ctx\<close> to
  \<open>nil\<close>. From then on \<open>cleanup\<close> changes neither the context nor the history, whatever
  the history has become: no native call, hence no second release. So any number of
  further calls leaves the state of the first.
\<close>

theorem cleanup_once_then_inert:
  "ctx kmod = Some c \<Longrightarrow>
   cleanup (kmod, h) =
     (kmod\<lparr>ctx := None\<rparr>, h @ [Kmod_unload_resources (Some c), Kmod_unref (Some c)]) \<and>
   (\<forall>h'. cleanup (kmod\<lparr>ctx := None\<rparr>, h') = (kmod\<lparr>ctx := None\<rparr>, h')) \<and>
   (\<forall>n. (cleanup ^^ Suc n) (kmod, h) = cleanup (kmod, h))"
proof (intro conjI allI)
  assume c: "ctx kmod = Some c"
  then show first: "cleanup (kmod, h) =
     (kmod\<lparr>ctx := None\<rparr>, h @ [Kmod_unload_resources (Some c), Kmod_unref (Some c)])"
    by (simp add: cleanup_def)
  show "cleanup (kmod\<lparr>ctx := None\<rparr>, h') = (kmod\<lparr>ctx := None\<rparr>, h')" for h'
    by (simp add: cleanup_nil)
  show "(cleanup ^^ Suc n) (kmod, h) = cleanup (kmod, h)" for n
    unfolding funpow_Suc_right o_apply first by (simp add: cleanup_funpow_nil)
qed

theorem cleanup_once_then_inert_witness:
  "cleanup (\<lparr>ctx = Some 1\<rparr>, []) =
     (\<lparr>ctx = None\<rparr>, [Kmod_unload_resources (Some 1), Kmod_unref (Some 1)]) \<and>
   cleanup (cleanup (\<lparr>ctx = Some 1\<rparr>, [])) = cleanup (\<lparr>ctx = Some 1\<rparr>, []) \<and>
   cleanup (cleanup (cleanup (\<lparr>ctx = Some 1\<rparr>, []))) = cleanup (\<lparr>ctx = Some 1\<rparr>, [])"
proof -
  have c: "ctx \<lparr>ctx = Some 1\<rparr> = Some 1" by simp
  note t = cleanup_once_then_inert [OF c, of "[]"]
  from t have a: "cleanup (\<lparr>ctx = Some 1\<rparr>, []) =
     (\<lparr>ctx = None\<rparr>, [Kmod_unload_resources (Some 1), Kmod_unref (Some 1)])" by simp
  from t have "(cleanup ^^ Suc (Suc 0)) (\<lparr>ctx = Some 1\<rparr>, []) = cleanup (\<lparr>ctx = Some 1\<rparr>, [])"
    by blast
  then have b: "cleanup (cleanup (\<lparr>ctx = Some 1\<rparr>, [])) = cleanup (\<lparr>ctx = Some 1\<rparr>, [])"
    by simp
  from a b show ?thesis by simp
qed

text \<open>
  Claim C3. Every native handle acquired is released exactly once on every exit path; in
  particular \<open>NewKmod\<close> releases the session it created when resource loading fails.
  The code does not: on a library whose session creation succeeds and whose resource
  loading answers \<open>-ENOMEM\<close>, \<open>NewKmod\<close> returns the error after two native calls,
  neither of which is the release of the session.
\<close>

theorem NewKmod_load_failure_keeps_session:
  "NewKmod (stub_libkmod (Some 1) (- 12)) [] =
     (Inl (Errorf ''Kmod: unable to prepare the kmod_ctx, leaving now - Cannot allocate memory''),
      [Kmod_new None None, Kmod_load_resources (Some 1)]) \<and>
   Kmod_unref (Some 1) \<notin> set (snd (NewKmod (stub_libkmod (Some 1) (- 12)) []))"
  by (simp add: NewKmod_def stub_libkmod_def goStrerror_def)

text \<open>
  Claim C4. \<open>NewKmod\<close> returns the initialization error when session creation answers
  \<open>nil\<close> (resource loading is then not called), the resource-load error carrying the
  rendered string of the negated status when loading answers a negative status, and
  otherwise a context holding the non-nil session. It returns an error in these two
  cases only.
\<close>

theorem NewKmod_results:
  "(kmod_new L h None None = None \<longrightarrow>
      NewKmod L h =
        (Inl (Errorf ''Kmod: unable to create the kmod_ctx, leaving now''),
         h @ [Kmod_new None None])) \<and>
   (kmod_new L h None None = Some c \<and>
    sint (kmod_load_resources L (h @ [Kmod_new None None]) (Some c)) < 0 \<longrightarrow>
      fst (NewKmod L h) =
        Inl (Errorf (''Kmod: unable to prepare the kmod_ctx, leaving now - ''
                     @ strerror L (- kmod_load_resources L (h @ [Kmod_new None None]) (Some c))))) \<and>
   (kmod_new L h None None = Some c \<and>
    0 \<le> sint (kmod_load_resources L (h @ [Kmod_new None None]) (Some c)) \<longrightarrow>
      NewKmod L h =
        (Inr \<lparr>ctx = Some c\<rparr>, h @ [Kmod_new None None, Kmod_load_resources (Some c)])) \<and>
   isl (fst (NewKmod L h)) =
     (kmod_new L h None None = None \<or>
      sint (kmod_load_resources L (h @ [Kmod_new None None]) (kmod_new L h None None)) < 0)"
  by (auto simp add: NewKmod_def Let_def goStrerror_def)

theorem NewKmod_results_witness:
  "NewKmod (stub_libkmod None 0) [] =
     (Inl (Errorf ''Kmod: unable to create the kmod_ctx, leaving now''), [Kmod_new None None]) \<and>
   fst (NewKmod (stub_libkmod (Some 1) (- 12)) []) =
     Inl (Errorf ''Kmod: unable to prepare the kmod_ctx, leaving now - Cannot allocate memory'') \<and>
   NewKmod (stub_libkmod (Some 1) 0) [] =
     (Inr \<lparr>ctx = Some 1\<rparr>, [Kmod_new None None, Kmod_load_resources (Some 1)])"
proof -
  have a: "kmod_new (stub_libkmod None 0) [] None None = None"
    by (simp add: stub_libkmod_def)
  have b: "kmod_new (stub_libkmod (Some 1) (- 12)) [] None None = Some 1 \<and>
    sint (kmod_load_resources (stub_libkmod (Some 1) (- 12)) ([] @ [Kmod_new None None]) (Some 1)) < 0"
    by (simp add: stub_libkmod_def)
  have c: "kmod_new (stub_libkmod (Some 1) 0) [] None None = Some 1 \<and>
    0 \<le> sint (kmod_load_resources (stub_libkmod (Some 1) 0) ([] @ [Kmod_new None None]) (Some 1))"
    by (simp add: stub_libkmod_def)
  note NewKmod_results [THEN conjunct1, rule_format, OF a]
    NewKmod_results [THEN conjunct2, THEN conjunct1, rule_format, OF b]
    NewKmod_results [THEN conjunct2, THEN conjunct2, THEN conjunct1, rule_format, OF c]
  then show ?thesis by (simp add: stub_libkmod_def)
qed

section \<open>Queries\<close>

lemma Lookup_negative:
  "kmod_module_new_from_lookup L h (ctx kmod) a = (st, l) \<Longrightarrow> sint st < 0 \<Longrightarrow>
   Lookup L kmod a h =
     (Inl (Errorf (''Kmod : Failed to lookup '' @ a @ '' - '' @ strerror L (- st))),
      h @ [Kmod_module_new_from_lookup (ctx kmod) a])"
  by (simp add: Lookup_def goStrerror_def)

lemma Lookup_nonnegative:
  "kmod_module_new_from_lookup L h (ctx kmod) a = (st, l) \<Longrightarrow> 0 \<le> sint st \<Longrightarrow>
   Lookup L kmod a h =
     (Inr (map newModule l),
      h @ [Kmod_module_new_from_lookup (ctx kmod) a] @ map Kmod_module_get_module l
        @ [Kmod_module_unref_list l])"
  by (simp add: Lookup_def newModuleList_eq)

lemma List_negative:
  "kmod_module_new_from_loaded L h (ctx kmod) = (st, l) \<Longrightarrow> sint st < 0 \<Longrightarrow>
   List L kmod h =
     (Inl (Errorf (''Kmod: couldn't get the list of modules: '' @ strerror L (- st)
                   @ [CHR 0x0A])),
      h @ [Kmod_module_new_from_loaded (ctx kmod)])"
  by (simp add: List_def goStrerror_def)

lemma List_nonnegative:
  "kmod_module_new_from_loaded L h (ctx kmod) = (st, l) \<Longrightarrow> 0 \<le> sint st \<Longrightarrow>
   List L kmod h =
     (Inr (map newModule l),
      h @ [Kmod_module_new_from_loaded (ctx kmod)] @ map Kmod_module_get_module l
        @ [Kmod_module_unref_list l])"
  by (simp add: List_def newModuleList_eq)

lemma ModuleFromName_negative:
  "kmod_module_new_from_name L h (ctx kmod) name = (st, m) \<Longrightarrow> sint st < 0 \<Longrightarrow>
   ModuleFromName L kmod name h =
     (Inl (Errorf (''Kmod : Could not get module '' @ name @ '' - '' @ strerror L (- st))),
      h @ [Kmod_module_new_from_name (ctx kmod) name])"
  by (simp add: ModuleFromName_def goStrerror_def)


text \<open>
  Claim C5. \<open>Lookup\<close> returns an error exactly when the native lookup answers a negative
  status. Any non-negative status is a success whatever the length of the native list:
  the result is the adapted list, and for the empty native list the empty sequence.
\<close>

theorem Lookup_error_iff_negative:
  "kmod_module_new_from_lookup L h (ctx kmod) aliasName = (st, l) \<Longrightarrow>
   isl (fst (Lookup L kmod aliasName h)) = (sint st < 0) \<and>
   (sint st < 0 \<longrightarrow>
      fst (Lookup L kmod aliasName h) =
        Inl (Errorf (''Kmod : Failed to lookup '' @ aliasName @ '' - '' @ strerror L (- st)))) \<and>
   (0 \<le> sint st \<longrightarrow> fst (Lookup L kmod aliasName h) = Inr (map newModule l)) \<and>
   (0 \<le> sint st \<and> l = [] \<longrightarrow> fst (Lookup L kmod aliasName h) = Inr [])"
proof (cases "sint st < 0")
  case True
  assume "kmod_module_new_from_lookup L h (ctx kmod) aliasName = (st, l)"
  from Lookup_negative [OF this True] True show ?thesis by simp
next
  case False
  then have nn: "0 \<le> sint st" by simp
  assume "kmod_module_new_from_lookup L h (ctx kmod) aliasName = (st, l)"
  from Lookup_nonnegative [OF this nn] False show ?thesis by simp
qed

theorem Lookup_error_iff_negative_witness:
  "fst (Lookup (stub_libkmod (Some 1) 0) \<lparr>ctx = Some 1\<rparr> ''bogus'' []) =
     Inl (Errorf ''Kmod : Failed to lookup bogus - No such file or directory'') \<and>
   fst (Lookup (stub_libkmod (Some 1) 0) \<lparr>ctx = Some 1\<rparr> ''snd'' []) =
     Inr [\<lparr>mod' = Some 11\<rparr>, \<lparr>mod' = Some 12\<rparr>, \<lparr>mod' = Some 13\<rparr>] \<and>
   fst (Lookup (stub_libkmod (Some 1) 0) \<lparr>ctx = Some 1\<rparr> ''absent'' []) = Inr []"
proof -
  let ?L = "stub_libkmod (Some 1) 0"
  have a: "kmod_module_new_from_lookup ?L [] (ctx \<lparr>ctx = Some 1\<rparr>) ''bogus'' = (- 2, [])"
    by (simp add: stub_libkmod_def)
  have b: "kmod_module_new_from_lookup ?L [] (ctx \<lparr>ctx = Some 1\<rparr>) ''snd'' =
      (0, [Some 11, Some 12, Some 13])"
    by (simp add: stub_libkmod_def)
  have c: "kmod_module_new_from_lookup ?L [] (ctx \<lparr>ctx = Some 1\<rparr>) ''absent'' = (0, [])"
    by (simp add: stub_libkmod_def)
  have n: "sint (- 2 :: cint) < 0" and z: "0 \<le> sint (0 :: cint)" by simp_all
  from Lookup_error_iff_negative [OF a] n
  have "fst (Lookup ?L \<lparr>ctx = Some 1\<rparr> ''bogus'' []) =
     Inl (Errorf (''Kmod : Failed to lookup '' @ ''bogus'' @ '' - '' @ strerror ?L (- (- 2))))"
    by blast
  moreover from Lookup_error_iff_negative [OF b] z
  have "fst (Lookup ?L \<lparr>ctx = Some 1\<rparr> ''snd'' []) = Inr (map newModule [Some 11, Some 12, Some 13])"
    by blast
  moreover from Lookup_error_iff_negative [OF c] z
  have "fst (Lookup ?L \<lparr>ctx = Some 1\<rparr> ''absent'' []) = Inr []"
    by blast
  ultimately show ?thesis by (simp add: stub_libkmod_def newModule_def)
qed

text \<open>
  Claim C9. \<open>List\<close> returns an error exactly when the native enumeration answers a
  negative status. On a non-negative status it returns the modules adapted from the
  native list: their handles are the entries of the native list in native iteration
  order (one reference taken per entry, then the list released), and the empty native
  list gives the empty sequence.
\<close>

theorem List_error_iff_negative:
  "kmod_module_new_from_loaded L h (ctx kmod) = (st, l) \<Longrightarrow>
   isl (fst (List L kmod h)) = (sint st < 0) \<and>
   (sint st < 0 \<longrightarrow>
      List L kmod h =
        (Inl (Errorf (''Kmod: couldn't get the list of modules: '' @ strerror L (- st)
                      @ [CHR 0x0A])),
         h @ [Kmod_module_new_from_loaded (ctx kmod)])) \<and>
   (0 \<le> sint st \<longrightarrow>
      List L kmod h =
        (Inr (map newModule l),
         h @ [Kmod_module_new_from_loaded (ctx kmod)] @ map Kmod_module_get_module l
           @ [Kmod_module_unref_list l]) \<and>
      map mod' (projr (fst (List L kmod h))) = l) \<and>
   (0 \<le> sint st \<and> l = [] \<longrightarrow> fst (List L kmod h) = Inr [])"
proof (cases "sint st < 0")
  case True
  assume "kmod_module_new_from_loaded L h (ctx kmod) = (st, l)"
  from List_negative [OF this True] True show ?thesis by simp
next
  case False
  then have nn: "0 \<le> sint st" by simp
  have m: "map mod' (map newModule l) = l"
    by (induction l) (simp_all add: newModule_def)
  assume "kmod_module_new_from_loaded L h (ctx kmod) = (st, l)"
  from List_nonnegative [OF this nn] False m show ?thesis by simp
qed

theorem List_error_iff_negative_witness:
  "List (stub_libkmod (Some 1) 0) \<lparr>ctx = Some 2\<rparr> [] =
     (Inl (Errorf (''Kmod: couldn't get the list of modules: Bad file descriptor'' @ [CHR 0x0A])),
      [Kmod_module_new_from_loaded (Some 2)]) \<and>
   List (stub_libkmod (Some 1) 0) \<lparr>ctx = Some 1\<rparr> [] =
     (Inr [\<lparr>mod' = Some 10\<rparr>, \<lparr>mod' = Some 11\<rparr>],
      [Kmod_module_new_from_loaded (Some 1), Kmod_module_get_module (Some 10),
       Kmod_module_get_module (Some 11), Kmod_module_unref_list [Some 10, Some 11]])"
proof -
  let ?L = "stub_libkmod (Some 1) 0"
  have a: "kmod_module_new_from_loaded ?L [] (ctx \<lparr>ctx = Some 2\<rparr>) = (- 9, [])"
    by (simp add: stub_libkmod_def)
  have b: "kmod_module_new_from_loaded ?L [] (ctx \<lparr>ctx = Some 1\<rparr>) = (0, [Some 10, Some 11])"
    by (simp add: stub_libkmod_def)
  have n: "sint (- 9 :: cint) < 0" and z: "0 \<le> sint (0 :: cint)" by simp_all
  from List_error_iff_negative [OF a] n
  have "List ?L \<lparr>ctx = Some 2\<rparr> [] =
        (Inl (Errorf (''Kmod: couldn't get the list of modules: '' @ strerror ?L (- (- 9))
                      @ [CHR 0x0A])),
         [] @ [Kmod_module_new_from_loaded (ctx \<lparr>ctx = Some 2\<rparr>)])"
    by blast
  moreover from List_error_iff_negative [OF b] z
  have "List ?L \<lparr>ctx = Some 1\<rparr> [] =
        (Inr (map newModule [Some 10, Some 11]),
         [] @ [Kmod_module_new_from_loaded (ctx \<lparr>ctx = Some 1\<rparr>)]
           @ map Kmod_module_get_module [Some 10, Some 11]
           @ [Kmod_module_unref_list [Some 10, Some 11]])"
    by blast
  ultimately show ?thesis by (simp add: stub_libkmod_def newModule_def)
qed




section \<open>Native statuses become errors\<close>

text \<open>
  Claim C8. Whenever a native call made by an operation of \<open>kmod.go\<close> answers a negative
  status, the operation returns at once an error whose message holds the string that the
  native error rendering gives for the negated status, and the name involved where there
  is one (the alias or module name asked for, or the name of the module the loop had
  reached). The history after the failing call shows that call once and nothing else,
  apart from reading the module name in the two loops: the status is not dropped and
  the call is not issued again. The last two parts are stated at the call site, for the
  loop of \<open>Insert\<close> and of \<open>Remove\<close> reaching a module from any history.
\<close>

theorem negative_status_becomes_error:
  "(kmod_new L h None None = Some c \<and>
    kmod_load_resources L (h @ [Kmod_new None None]) (Some c) = st1 \<and> sint st1 < 0 \<longrightarrow>
      NewKmod L h =
        (Inl (Errorf (''Kmod: unable to prepare the kmod_ctx, leaving now - ''
                      @ strerror L (- st1))),
         h @ [Kmod_new None None, Kmod_load_resources (Some c)])) \<and>
   (kmod_module_new_from_loaded L h (ctx kmod) = (st2, l2) \<and> sint st2 < 0 \<longrightarrow>
      List L kmod h =
        (Inl (Errorf (''Kmod: couldn't get the list of modules: '' @ strerror L (- st2)
                      @ [CHR 0x0A])),
         h @ [Kmod_module_new_from_loaded (ctx kmod)])) \<and>
   (kmod_module_new_from_lookup L h (ctx kmod) name = (st3, l3) \<and> sint st3 < 0 \<longrightarrow>
      Lookup L kmod name h =
        (Inl (Errorf (''Kmod : Failed to lookup '' @ name @ '' - '' @ strerror L (- st3))),
         h @ [Kmod_module_new_from_lookup (ctx kmod) name]) \<and>
      Insert L kmod name h =
        (Some (Errorf (''Kmod : Failed to lookup '' @ name @ '' - '' @ strerror L (- st3))),
         h @ [Kmod_module_new_from_lookup (ctx kmod) name]) \<and>
      Remove L kmod name h =
        (Some (Errorf (''Kmod : Failed to lookup '' @ name @ '' - '' @ strerror L (- st3))),
         h @ [Kmod_module_new_from_lookup (ctx kmod) name])) \<and>
   (kmod_module_new_from_name L h (ctx kmod) name = (st4, m4) \<and> sint st4 < 0 \<longrightarrow>
      ModuleFromName L kmod name h =
        (Inl (Errorf (''Kmod : Could not get module '' @ name @ '' - ''
                      @ strerror L (- st4))),
         h @ [Kmod_module_new_from_name (ctx kmod) name])) \<and>
   (kmod_module_probe_insert_module L h (mod' module) 0 None None None None = st5 \<and>
    sint st5 < 0 \<longrightarrow>
      Insert_range L (module # rest) h =
        (Some (Errorf (''Could not insert module ''
                       @ kmod_module_get_name L (h @ [probe_call module]) (mod' module)
                       @ '' : '' @ strerror L (- st5))),
         h @ [probe_call module, Kmod_module_get_name (mod' module)])) \<and>
   (kmod_module_remove_module L h (mod' module) 0 = st6 \<and> sint st6 < 0 \<longrightarrow>
      Remove_range L (module # rest) h =
        (Some (Errorf (''Could not remove module ''
                       @ kmod_module_get_name L (h @ [remove_call module]) (mod' module)
                       @ '' : '' @ strerror L (- st6))),
         h @ [remove_call module, Kmod_module_get_name (mod' module)]))"
proof (intro conjI impI)
  assume "kmod_new L h None None = Some c \<and>
    kmod_load_resources L (h @ [Kmod_new None None]) (Some c) = st1 \<and> sint st1 < 0"
  then show "NewKmod L h =
        (Inl (Errorf (''Kmod: unable to prepare the kmod_ctx, leaving now - ''
                      @ strerror L (- st1))),
         h @ [Kmod_new None None, Kmod_load_resources (Some c)])"
    by (simp add: NewKmod_def goStrerror_def)
next
  assume "kmod_module_new_from_loaded L h (ctx kmod) = (st2, l2) \<and> sint st2 < 0"
  then show "List L kmod h =
        (Inl (Errorf (''Kmod: couldn't get the list of modules: '' @ strerror L (- st2)
                      @ [CHR 0x0A])),
         h @ [Kmod_module_new_from_loaded (ctx kmod)])"
    by (simp add: List_negative)
next
  assume a: "kmod_module_new_from_lookup L h (ctx kmod) name = (st3, l3) \<and> sint st3 < 0"
  then show lk: "Lookup L kmod name h =
        (Inl (Errorf (''Kmod : Failed to lookup '' @ name @ '' - '' @ strerror L (- st3))),
         h @ [Kmod_module_new_from_lookup (ctx kmod) name])"
    by (simp add: Lookup_negative)
  show "Insert L kmod name h =
        (Some (Errorf (''Kmod : Failed to lookup '' @ name @ '' - '' @ strerror L (- st3))),
         h @ [Kmod_module_new_from_lookup (ctx kmod) name])"
    by (simp add: Insert_def lk)
  show "Remove L kmod name h =
        (Some (Errorf (''Kmod : Failed to lookup '' @ name @ '' - '' @ strerror L (- st3))),
         h @ [Kmod_module_new_from_lookup (ctx kmod) name])"
    by (simp add: Remove_def lk)
next
  assume "kmod_module_new_from_name L h (ctx kmod) name = (st4, m4) \<and> sint st4 < 0"
  then show "ModuleFromName L kmod name h =
        (Inl (Errorf (''Kmod : Could not get module '' @ name @ '' - ''
                      @ strerror L (- st4))),
         h @ [Kmod_module_new_from_name (ctx kmod) name])"
    by (simp add: ModuleFromName_negative)
next
  assume "kmod_module_probe_insert_module L h (mod' module) 0 None None None None = st5 \<and>
    sint st5 < 0"
  then show "Insert_range L (module # rest) h =
        (Some (Errorf (''Could not insert module ''
                       @ kmod_module_get_name L (h @ [probe_call module]) (mod' module)
                       @ '' : '' @ strerror L (- st5))),
         h @ [probe_call module, Kmod_module_get_name (mod' module)])"
    by (simp add: Name_def goStrerror_def probe_call_def)
next
  assume "kmod_module_remove_module L h (mod' module) 0 = st6 \<and> sint st6 < 0"
  then show "Remove_range L (module # rest) h =
        (Some (Errorf (''Could not remove module ''
                       @ kmod_module_get_name L (h @ [remove_call module]) (mod' module)
                       @ '' : '' @ strerror L (- st6))),
         h @ [remove_call module, Kmod_module_get_name (mod' module)])"
    by (simp add: Name_def goStrerror_def remove_call_def)
qed

theorem negative_status_becomes_error_witness:
  "NewKmod (stub_libkmod (Some 1) (- 12)) [] =
     (Inl (Errorf ''Kmod: unable to prepare the kmod_ctx, leaving now - Cannot allocate memory''),
      [Kmod_new None None, Kmod_load_resources (Some 1)]) \<and>
   List (stub_libkmod (Some 1) 0) \<lparr>ctx = Some 2\<rparr> [] =
     (Inl (Errorf (''Kmod: couldn't get the list of modules: Bad file descriptor'' @ [CHR 0x0A])),
      [Kmod_module_new_from_loaded (Some 2)]) \<and>
   Lookup (stub_libkmod (Some 1) 0) \<lparr>ctx = Some 1\<rparr> ''bogus'' [] =
     (Inl (Errorf ''Kmod : Failed to lookup bogus - No such file or directory''),
      [Kmod_module_new_from_lookup (Some 1) ''bogus'']) \<and>
   ModuleFromName (stub_libkmod (Some 1) 0) \<lparr>ctx = Some 1\<rparr> ''nonexistent-xyz'' [] =
     (Inl (Errorf ''Kmod : Could not get module nonexistent-xyz - No such file or directory''),
      [Kmod_module_new_from_name (Some 1) ''nonexistent-xyz'']) \<and>
   Insert_range (stub_libkmod (Some 1) 0) [\<lparr>mod' = Some 12\<rparr>, \<lparr>mod' = Some 13\<rparr>] [] =
     (Some (Errorf ''Could not insert module snd_pcm : No such device''),
      [Kmod_module_probe_insert_module (Some 12) 0 None None None None,
       Kmod_module_get_name (Some 12)]) \<and>
   Remove_range (stub_libkmod (Some 1) 0) [\<lparr>mod' = Some 12\<rparr>, \<lparr>mod' = Some 13\<rparr>] [] =
     (Some (Errorf ''Could not remove module snd_pcm : Device or resource busy''),
      [Kmod_module_remove_module (Some 12) 0, Kmod_module_get_name (Some 12)])"
proof -
  let ?L = "stub_libkmod (Some 1) 0"
  let ?F = "stub_libkmod (Some 1) (- 12)"
  let ?k = "\<lparr>ctx = Some 1\<rparr>"
  let ?m = "\<lparr>mod' = Some 12\<rparr>"
  have 1: "kmod_new ?F [] None None = Some 1 \<and>
      kmod_load_resources ?F ([] @ [Kmod_new None None]) (Some 1) = - 12 \<and>
      sint (- 12 :: cint) < 0"
    by (simp add: stub_libkmod_def)
  have 2: "kmod_module_new_from_loaded ?L [] (ctx \<lparr>ctx = Some 2\<rparr>) = (- 9, []) \<and>
      sint (- 9 :: cint) < 0"
    by (simp add: stub_libkmod_def)
  have 3: "kmod_module_new_from_lookup ?L [] (ctx ?k) ''bogus'' = (- 2, []) \<and>
      sint (- 2 :: cint) < 0"
    by (simp add: stub_libkmod_def)
  have 4: "kmod_module_new_from_name ?L [] (ctx ?k) ''nonexistent-xyz'' = (- 2, None) \<and>
      sint (- 2 :: cint) < 0"
    by (simp add: stub_libkmod_def)
  have 5: "kmod_module_probe_insert_module ?L [] (mod' ?m) 0 None None None None = - 19 \<and>
      sint (- 19 :: cint) < 0"
    by (simp add: stub_libkmod_def)
  have 6: "kmod_module_remove_module ?L [] (mod' ?m) 0 = - 16 \<and> sint (- 16 :: cint) < 0"
    by (simp add: stub_libkmod_def)
  note negative_status_becomes_error [THEN conjunct1, rule_format, OF 1]
    negative_status_becomes_error [THEN conjunct2, THEN conjunct1, rule_format, OF 2]
    negative_status_becomes_error [THEN conjunct2, THEN conjunct2, THEN conjunct1,
      rule_format, OF 3, THEN conjunct1]
    negative_status_becomes_error [THEN conjunct2, THEN conjunct2, THEN conjunct2,
      THEN conjunct1, rule_format, OF 4]
    negative_status_becomes_error [THEN conjunct2, THEN conjunct2, THEN conjunct2,
      THEN conjunct2, THEN conjunct1, rule_format, OF 5, of "[\<lparr>mod' = Some 13\<rparr>]"]
    negative_status_becomes_error [THEN conjunct2, THEN conjunct2, THEN conjunct2,
      THEN conjunct2, THEN conjunct2, rule_format, OF 6, of "[\<lparr>mod' = Some 13\<rparr>]"]
  then show ?thesis
    by (simp add: stub_libkmod_def probe_call_def remove_call_def)
qed

end
